theory Spec2Isabelle
  imports Main "HOL-Library.Sublist"
begin

section \<open>Data model\<close>

text \<open>
  The chat page of the client (\<^verbatim>\<open>src/routes/+page.svelte\<close>) and the message record of its
  API client (\<^verbatim>\<open>src/lib/api.ts\<close>).  JavaScript strings are modelled as \<^typ>\<open>string\<close>; an
  optional field (\<^verbatim>\<open>mood?: string\<close>) is a \<^typ>\<open>string option\<close>, \<^term>\<open>None\<close> standing for
  \<^verbatim>\<open>undefined\<close>.
\<close>

record ApiMessage =
  role :: string
  content_raw :: string
  content_split :: "string list"
  mood :: "string option"
  time :: int
  image_path :: "string option"
  message_type :: string

record SummarizeResponse =
  status :: string
  message :: string

text \<open>The object \<^verbatim>\<open>{ mood: string, extension: string }\<close> returned by \<^verbatim>\<open>get_extension\<close>.\<close>

record ResolvedAvatar =
  mood :: string
  extension :: string

text \<open>The page's own \<^verbatim>\<open>interface Message\<close>, one bubble of the timeline.\<close>

record Message =
  role :: string
  content :: string
  mood :: "string option"
  image_path :: "string option"

text \<open>
  The parsed form of the JSON text held by \<^verbatim>\<open>attachedImage\<close>, which the page only ever
  writes as \<^verbatim>\<open>JSON.stringify({ filename, data: base64 })\<close>.
\<close>

record ImageData =
  filename :: string
  data :: string

text \<open>
  JavaScript truthiness of an optional string, as tested by \<^verbatim>\<open>if (msg.mood)\<close> and
  \<^verbatim>\<open>msg.image_path && ...\<close>: \<^verbatim>\<open>undefined\<close> and the empty string are falsy.
\<close>

definition truthy :: "string option \<Rightarrow> bool" where
  "truthy v = (case v of None \<Rightarrow> False | Some s \<Rightarrow> s \<noteq> [])"

section \<open>Flattening of server messages\<close>

text \<open>The callback that \<^verbatim>\<open>flattenMessages\<close> hands to \<^verbatim>\<open>flatMap\<close>.\<close>

definition flattenMessage :: "ApiMessage \<Rightarrow> Message list" where
  "flattenMessage msg =
     (if truthy (ApiMessage.image_path msg) \<and> length (content_split msg) \<ge> 2
      then [\<lparr>Message.role = ApiMessage.role msg,
             content = content_split msg ! 1,
             mood = ApiMessage.mood msg,
             image_path = ApiMessage.image_path msg\<rparr>]
      else map (\<lambda>content. \<lparr>Message.role = ApiMessage.role msg,
                           content = content,
                           mood = ApiMessage.mood msg,
                           image_path = ApiMessage.image_path msg\<rparr>)
               (content_split msg))"

definition flattenMessages :: "ApiMessage list \<Rightarrow> Message list" where
  "flattenMessages apiMessages = concat (map flattenMessage apiMessages)"

section \<open>Mood resolution\<close>

text \<open>
  What \<^verbatim>\<open>await fetch(url, { method: 'HEAD' })\<close> does: the promise rejects, or it yields a
  response whose \<^verbatim>\<open>ok\<close> flag is given.  The static asset server is a function from the
  requested path to that outcome.
\<close>

datatype fetch_result = Rejected | Response bool

type_synonym fetch = "string \<Rightarrow> fetch_result"

definition avatar_url :: "string \<Rightarrow> string \<Rightarrow> string" where
  "avatar_url m ext = ''/avatar/'' @ m @ ''.'' @ ext"

text \<open>
  \<^verbatim>\<open>try { const response = await fetch(...); if (response.ok) return ... } catch {}\<close>:
  the probe succeeds only on a response with \<^verbatim>\<open>ok\<close> set; a rejection is swallowed.
\<close>

definition head_ok :: "fetch \<Rightarrow> string \<Rightarrow> bool" where
  "head_ok f url = (case f url of Rejected \<Rightarrow> False | Response ok \<Rightarrow> ok)"

definition imageFormats :: "string list" where
  "imageFormats = [''png'', ''jpg'', ''jpeg'', ''gif'', ''webp'']"

text \<open>
  The \<^verbatim>\<open>for (const format of imageFormats)\<close> loop.  The result is the list of paths that
  were requested, in order, and the first format whose probe succeeded.
\<close>

fun probe_formats :: "fetch \<Rightarrow> string \<Rightarrow> string list \<Rightarrow> string list \<times> string option" where
  "probe_formats f m [] = ([], None)"
| "probe_formats f m (format # formats) =
     (if head_ok f (avatar_url m format) then ([avatar_url m format], Some format)
      else (case probe_formats f m formats of
              (urls, found) \<Rightarrow> (avatar_url m format # urls, found)))"

text \<open>
  \<^verbatim>\<open>get_extension\<close>, returning the paths requested (in order) next to the resolved avatar.
  The function calls itself once more with \<^verbatim>\<open>'normal'\<close> when nothing was found for another
  mood.
\<close>

function get_extension :: "fetch \<Rightarrow> string \<Rightarrow> string list \<times> ResolvedAvatar" where
  "get_extension f m =
     (if head_ok f (avatar_url m ''mp4'')
      then ([avatar_url m ''mp4''], \<lparr>ResolvedAvatar.mood = m, extension = ''mp4''\<rparr>)
      else (case probe_formats f m imageFormats of
              (urls, Some format) \<Rightarrow>
                (avatar_url m ''mp4'' # urls, \<lparr>ResolvedAvatar.mood = m, extension = format\<rparr>)
            | (urls, None) \<Rightarrow>
                (if m \<noteq> ''normal''
                 then (case get_extension f ''normal'' of
                         (urls', result) \<Rightarrow> (avatar_url m ''mp4'' # urls @ urls', result))
                 else (avatar_url m ''mp4'' # urls,
                       \<lparr>ResolvedAvatar.mood = ''normal'', extension = ''png''\<rparr>))))"
  by pat_completeness auto
termination
  by (relation "measure (\<lambda>(f, m). if m = ''normal'' then 0 else 1)") auto

declare get_extension.simps [simp del]

section \<open>Page state and collaborators\<close>

text \<open>
  A value thrown by a call and caught by the page; the page only ever reads the text that
  \<^verbatim>\<open>String(err)\<close> (or a template literal) makes of it.
\<close>

datatype thrown = Thrown string

fun error_text :: "thrown \<Rightarrow> string" where
  "error_text (Thrown s) = s"

text \<open>The requests of \<^verbatim>\<open>src/lib/api.ts\<close> that the page issues.\<close>

datatype request =
    StartSummarization
  | GetSummarizationStatus
  | ShouldSendProactiveMessage
  | SendProactiveMessage
  | SendUnifiedMessage string "ImageData list"
  | TriggerWebSearch
  | TriggerReminisce

text \<open>
  What the page does to the outside and to its timeline, recorded in order: a \<^verbatim>\<open>HEAD\<close>
  request for an avatar path, a call of the API client, \<^verbatim>\<open>messages.push\<close>,
  \<^verbatim>\<open>messages.slice(0, n)\<close>, the assignment of the presentation mood, \<^verbatim>\<open>await tick()\<close>
  with the scroll that follows it, the \<^verbatim>\<open>setTimeout\<close> suspension, and \<^verbatim>\<open>alert\<close>.
  Console output is not recorded.
\<close>

datatype effect =
    Head string
  | Api request
  | Push Message
  | Slice nat
  | MoodSet ResolvedAvatar
  | Tick
  | Timeout nat
  | Alert string

text \<open>
  The component's variables.  \<^verbatim>\<open>pollInterval\<close> says whether the interval created by
  \<^verbatim>\<open>startSummarization\<close> is still installed; \<^verbatim>\<open>effects\<close> is the record of effects so far.
\<close>

record Page =
  message :: string
  messages :: "Message list"
  puriraWriting :: bool
  currentMood :: string
  currentExtension :: string
  menuOpen :: bool
  summarizing :: bool
  summarizeError :: string
  attachedImage :: "ImageData option"
  pollInterval :: bool
  effects :: "effect list"

text \<open>
  The collaborators at the time of one operation: the asset server and the outcome of each
  call of the API client (\<^term>\<open>Inl\<close> a thrown value, \<^term>\<open>Inr\<close> the value returned).  A call
  throws when \<^verbatim>\<open>fetch\<close> rejects or when \<^verbatim>\<open>request\<close> meets a response that is not ok.
\<close>

record World =
  fetch :: fetch
  api_startSummarization :: "thrown + SummarizeResponse"
  api_getSummarizationStatus :: "thrown + SummarizeResponse"
  api_shouldSendProactiveMessage :: "thrown + bool"
  api_sendProactiveMessage :: "thrown + ApiMessage list"
  api_sendUnifiedMessage :: "string \<Rightarrow> ImageData list \<Rightarrow> thrown + ApiMessage list"
  api_triggerWebSearch :: "thrown + ApiMessage list"
  api_triggerReminisce :: "thrown + ApiMessage list"

section \<open>String helpers\<close>

text \<open>
  \<^verbatim>\<open>String.prototype.trim\<close> removes white space and line terminators from both ends.  Of
  these, the characters below are the ones a \<^typ>\<open>char\<close> can hold: TAB, LF, VT, FF, CR,
  SPACE and NO-BREAK SPACE.
\<close>

definition is_space :: "char \<Rightarrow> bool" where
  "is_space c = (c \<in> set [CHR 0x09, CHR 0x0A, CHR 0x0B, CHR 0x0C, CHR 0x0D, CHR 0x20, CHR 0xA0])"

definition trim :: "string \<Rightarrow> string" where
  "trim s = rev (dropWhile is_space (rev (dropWhile is_space s)))"

text \<open>\<^verbatim>\<open>String.prototype.includes\<close>: the second string occurs somewhere in the first.\<close>

fun str_includes :: "string \<Rightarrow> string \<Rightarrow> bool" where
  "str_includes [] sub = (sub = [])"
| "str_includes (c # cs) sub = (prefix sub (c # cs) \<or> str_includes cs sub)"

section \<open>Operations of the page\<close>

definition emit :: "effect \<Rightarrow> Page \<Rightarrow> Page" where
  "emit e st = st\<lparr>effects := effects st @ [e]\<rparr>"

definition alert :: "string \<Rightarrow> Page \<Rightarrow> Page" where
  "alert s st = emit (Alert s) st"

definition toggleMenu :: "Page \<Rightarrow> Page" where
  "toggleMenu st = st\<lparr>menuOpen := \<not> menuOpen st\<rparr>"

text \<open>\<^verbatim>\<open>messages.push(msg); messages = messages;\<close>\<close>

definition push :: "Message \<Rightarrow> Page \<Rightarrow> Page" where
  "push msg st = emit (Push msg) (st\<lparr>messages := messages st @ [msg]\<rparr>)"

text \<open>\<^verbatim>\<open>await tick(); scrollToBottom();\<close>\<close>

definition tick_scroll :: "Page \<Rightarrow> Page" where
  "tick_scroll st = emit Tick st"

definition updateMood :: "World \<Rightarrow> string \<Rightarrow> Page \<Rightarrow> Page" where
  "updateMood w m st =
     (case get_extension (fetch w) m of
        (urls, result) \<Rightarrow>
          st\<lparr>currentMood := ResolvedAvatar.mood result,
             currentExtension := extension result,
             effects := effects st @ map Head urls @ [MoodSet result]\<rparr>)"

text \<open>
  Every element of the array that \<^verbatim>\<open>flattenMessages\<close> returns is an object literal
  evaluated for that element, so no two elements are the same object.  An object is its
  value together with the number of its allocation; \<^verbatim>\<open>Array.prototype.indexOf\<close> compares
  objects by identity, that is by this number, and returns \<^verbatim>\<open>-1\<close> when nothing matches.
\<close>

type_synonym 'a obj = "nat \<times> 'a"

definition new_objects :: "'a list \<Rightarrow> 'a obj list" where
  "new_objects xs = zip [0..<length xs] xs"

fun indexOf :: "'a obj list \<Rightarrow> 'a obj \<Rightarrow> int" where
  "indexOf [] x = -1"
| "indexOf (y # ys) x =
     (if fst y = fst x then 0
      else (let i = indexOf ys x in if i < 0 then -1 else i + 1))"

text \<open>
  The body of \<^verbatim>\<open>for (const msg of responseMessages)\<close> in \<^verbatim>\<open>displayResponseMessages\<close>, run
  for the elements that remain; the whole array is kept for \<^verbatim>\<open>indexOf\<close> and \<^verbatim>\<open>length\<close>.
\<close>

fun reveal_loop :: "World \<Rightarrow> Message obj list \<Rightarrow> nat \<Rightarrow> Message obj list \<Rightarrow> Page \<Rightarrow> Page" where
  "reveal_loop w responseMessages delay [] st = st"
| "reveal_loop w responseMessages delay (msg # rest) st =
     (let st1 = push (snd msg) st;
          st2 = (case Message.mood (snd msg) of
                   None \<Rightarrow> st1
                 | Some m \<Rightarrow> if m \<noteq> [] then updateMood w m st1 else st1);
          st3 = tick_scroll st2;
          st4 = (if indexOf responseMessages msg < int (length responseMessages) - 1
                 then emit (Timeout delay) st3 else st3)
      in reveal_loop w responseMessages delay rest st4)"

text \<open>The second parameter is optional in the source and defaults to 1000.\<close>

definition displayResponseMessages :: "World \<Rightarrow> Message obj list \<Rightarrow> nat option \<Rightarrow> Page \<Rightarrow> Page" where
  "displayResponseMessages w responseMessages delay st =
     reveal_loop w responseMessages (case delay of None \<Rightarrow> 1000 | Some d \<Rightarrow> d)
       responseMessages st"

text \<open>The \<^verbatim>\<open>catch\<close> block of \<^verbatim>\<open>send\<close>, applied to the state in which the exception arrives.\<close>

definition send_catch :: "nat \<Rightarrow> bool \<Rightarrow> ImageData option \<Rightarrow> thrown \<Rightarrow> Page \<Rightarrow> Page" where
  "send_catch messagesBeforeSend hadAttachment attachmentData err st =
     (let st1 = emit (Slice messagesBeforeSend)
                  (st\<lparr>messages := take messagesBeforeSend (messages st)\<rparr>);
          st2 = (if hadAttachment then st1\<lparr>attachedImage := attachmentData\<rparr> else st1);
          errorMsg = error_text err
      in if str_includes errorMsg ''503'' \<or> str_includes errorMsg ''summarization''
         then alert ''Cannot send messages while summarization is in progress. Please wait.'' st2
         else alert (''Error: '' @ error_text err) st2)"

text \<open>
  \<^verbatim>\<open>send\<close>.  The text is read from the bound variable \<^verbatim>\<open>message\<close>; the optional event only
  has its default action prevented.  The value of \<^verbatim>\<open>attachedImage\<close> is kept in
  \<^verbatim>\<open>attachmentData\<close> before it is cleared, and the \<^verbatim>\<open>finally\<close> block is the last update.
\<close>

definition send :: "World \<Rightarrow> Page \<Rightarrow> Page" where
  "send w st =
     (let text = trim (Page.message st)
      in if text = [] \<or> puriraWriting st \<or> summarizing st then st
         else
           (let messagesBeforeSend = length (messages st);
                hadAttachment = (attachedImage st \<noteq> None);
                attachmentData = attachedImage st;
                imageFilename = (case attachedImage st of
                                   None \<Rightarrow> None
                                 | Some imageData \<Rightarrow> Some (filename imageData));
                st1 = push \<lparr>Message.role = ''user'', content = text, mood = None,
                             image_path = imageFilename\<rparr> st;
                st2 = tick_scroll
                        (st1\<lparr>Page.message := [], attachedImage := None, puriraWriting := True\<rparr>);
                images = (case attachmentData of
                            None \<Rightarrow> []
                          | Some imageData \<Rightarrow> if hadAttachment then [imageData] else []);
                st3 = emit (Api (SendUnifiedMessage text images)) st2;
                st4 = (case api_sendUnifiedMessage w text images of
                         Inr apiMessages \<Rightarrow>
                           displayResponseMessages w (new_objects (flattenMessages apiMessages))
                             None st3
                       | Inl err \<Rightarrow>
                           send_catch messagesBeforeSend hadAttachment attachmentData err st3)
            in st4\<lparr>puriraWriting := False\<rparr>))"

text \<open>The menu entry, and below it the variant that the proactive check calls.\<close>

definition sendProactiveMessage :: "World \<Rightarrow> Page \<Rightarrow> Page" where
  "sendProactiveMessage w st =
     (let st0 = toggleMenu st
      in if puriraWriting st0 \<or> summarizing st0
         then alert ''Please wait for the current operation to complete.'' st0
         else
           (let st1 = emit (Api SendProactiveMessage) (st0\<lparr>puriraWriting := True\<rparr>);
                st2 = (case api_sendProactiveMessage w of
                         Inr apiMessages \<Rightarrow>
                           displayResponseMessages w (new_objects (flattenMessages apiMessages))
                             None st1
                       | Inl err \<Rightarrow> alert (''Error: '' @ error_text err) st1)
            in st2\<lparr>puriraWriting := False\<rparr>))"

definition sendProactiveMessageAuto :: "World \<Rightarrow> Page \<Rightarrow> Page" where
  "sendProactiveMessageAuto w st =
     (if puriraWriting st \<or> summarizing st then st
      else
        (let st1 = emit (Api SendProactiveMessage) (st\<lparr>puriraWriting := True\<rparr>);
             st2 = (case api_sendProactiveMessage w of
                      Inr apiMessages \<Rightarrow>
                        displayResponseMessages w (new_objects (flattenMessages apiMessages))
                          None st1
                    | Inl err \<Rightarrow> st1)
         in st2\<lparr>puriraWriting := False\<rparr>))"

text \<open>
  The two background actions.  What the call returns is dropped; only the console learns
  of a success.
\<close>

definition triggerWebSearch :: "World \<Rightarrow> Page \<Rightarrow> Page" where
  "triggerWebSearch w st =
     (let st0 = toggleMenu st
      in if puriraWriting st0 \<or> summarizing st0
         then alert ''Please wait for the current operation to complete.'' st0
         else
           (let st1 = emit (Api TriggerWebSearch) (st0\<lparr>puriraWriting := True\<rparr>);
                st2 = (case api_triggerWebSearch w of
                         Inr apiMessages \<Rightarrow> st1
                       | Inl err \<Rightarrow> alert (''Error: '' @ error_text err) st1)
            in st2\<lparr>puriraWriting := False\<rparr>))"

definition triggerReminisce :: "World \<Rightarrow> Page \<Rightarrow> Page" where
  "triggerReminisce w st =
     (let st0 = toggleMenu st
      in if puriraWriting st0 \<or> summarizing st0
         then alert ''Please wait for the current operation to complete.'' st0
         else
           (let st1 = emit (Api TriggerReminisce) (st0\<lparr>puriraWriting := True\<rparr>);
                st2 = (case api_triggerReminisce w of
                         Inr apiMessages \<Rightarrow> st1
                       | Inl err \<Rightarrow>
                           (let errorMsg = error_text err
                            in if str_includes errorMsg ''Not enough messages''
                               then alert ''Not enough messages to reminisce about (need at least 10)'' st1
                               else alert (''Error: '' @ error_text err) st1))
            in st2\<lparr>puriraWriting := False\<rparr>))"

section \<open>Periodic tasks\<close>

text \<open>
  One run of the callback of \<^verbatim>\<open>proactiveCheckInterval\<close>.  Its \<^verbatim>\<open>catch\<close> only writes to
  the console.
\<close>

definition proactiveCheck :: "World \<Rightarrow> Page \<Rightarrow> Page" where
  "proactiveCheck w st =
     (if puriraWriting st \<or> summarizing st then st
      else
        (let st1 = emit (Api ShouldSendProactiveMessage) st
         in case api_shouldSendProactiveMessage w of
              Inr shouldSend \<Rightarrow> if shouldSend then sendProactiveMessageAuto w st1 else st1
            | Inl err \<Rightarrow> st1))"

text \<open>One run of the callback of \<^verbatim>\<open>pollInterval\<close> in \<^verbatim>\<open>startSummarization\<close>.\<close>

definition pollStatus :: "World \<Rightarrow> Page \<Rightarrow> Page" where
  "pollStatus w st =
     (let st1 = emit (Api GetSummarizationStatus) st
      in case api_getSummarizationStatus w of
           Inr response \<Rightarrow>
             if status response = ''idle''
             then st1\<lparr>pollInterval := False, summarizing := False\<rparr>
             else st1
         | Inl err \<Rightarrow>
             st1\<lparr>pollInterval := False, summarizing := False,
                 summarizeError := ''Failed to check status: '' @ error_text err\<rparr>)"

text \<open>
  \<^verbatim>\<open>startSummarization\<close> up to the installation of the interval; the runs of its callback
  are \<^const>\<open>pollStatus\<close>.
\<close>

definition startSummarization :: "World \<Rightarrow> Page \<Rightarrow> Page" where
  "startSummarization w st =
     (let st0 = (toggleMenu st)\<lparr>summarizing := True, summarizeError := []\<rparr>;
          st1 = emit (Api StartSummarization) st0
      in case api_startSummarization w of
           Inr response \<Rightarrow> st1\<lparr>pollInterval := True\<rparr>
         | Inl err \<Rightarrow>
             st1\<lparr>summarizing := False,
                 summarizeError := ''Failed to start summarization: '' @ error_text err\<rparr>)"

section \<open>Notions used by the properties\<close>



text \<open>
  The reveal as the specification words it, for comparison with the loop of the source: for
  each message in order, append it; if it carries a mood, resolve the mood and set the
  presentation mood; yield to the rendering loop; unless it is the last message, suspend.
\<close>

definition mood_effects :: "World \<Rightarrow> Message \<Rightarrow> effect list" where
  "mood_effects w msg =
     (case Message.mood msg of
        None \<Rightarrow> []
      | Some m \<Rightarrow>
          if m = [] then []
          else (case get_extension (fetch w) m of
                  (urls, result) \<Rightarrow> map Head urls @ [MoodSet result]))"

fun reveal_spec :: "World \<Rightarrow> nat \<Rightarrow> Message list \<Rightarrow> effect list" where
  "reveal_spec w delay [] = []"
| "reveal_spec w delay [msg] = Push msg # mood_effects w msg @ [Tick]"
| "reveal_spec w delay (msg # next # rest) =
     Push msg # mood_effects w msg @ [Tick, Timeout delay] @ reveal_spec w delay (next # rest)"

text \<open>
  The presentation mood (\<^verbatim>\<open>currentMood\<close>, \<^verbatim>\<open>currentExtension\<close>) that the specification's
  reveal leaves, starting from the one shown: each message that carries a mood replaces it
  by what the resolver returns for that mood.
\<close>

fun reveal_mood :: "World \<Rightarrow> Message list \<Rightarrow> string \<times> string \<Rightarrow> string \<times> string" where
  "reveal_mood w [] shown = shown"
| "reveal_mood w (msg # rest) shown =
     reveal_mood w rest
       (case Message.mood msg of
          None \<Rightarrow> shown
        | Some m \<Rightarrow>
            if m = [] then shown
            else (case get_extension (fetch w) m of
                    (urls, result) \<Rightarrow> (ResolvedAvatar.mood result, extension result)))"

fun is_timeout :: "effect \<Rightarrow> bool" where
  "is_timeout (Timeout d) = True"
| "is_timeout e = False"

text \<open>The effects that change the timeline, and those that go to the network.\<close>

fun is_timeline :: "effect \<Rightarrow> bool" where
  "is_timeline (Push msg) = True"
| "is_timeline (Slice n) = True"
| "is_timeline e = False"

fun is_request :: "effect \<Rightarrow> bool" where
  "is_request (Head url) = True"
| "is_request (Api r) = True"
| "is_request e = False"

text \<open>What is put before the user by \<^verbatim>\<open>alert\<close>.\<close>

fun is_alert :: "effect \<Rightarrow> bool" where
  "is_alert (Alert s) = True"
| "is_alert e = False"

section \<open>Example inputs\<close>

definition no_assets :: fetch where
  "no_assets url = Response False"

definition some_assets :: fetch where
  "some_assets url = Response (url = ''/avatar/normal.png'' \<or> url = ''/avatar/excited.gif'')"

definition hi_there :: ApiMessage where
  "hi_there = \<lparr>ApiMessage.role = ''assistant'', content_raw = ''hi there'',
     content_split = [''hi there''], mood = None, time = 1700000000,
     image_path = None, message_type = ''chat''\<rparr>"

definition how_are_you :: ApiMessage where
  "how_are_you = \<lparr>ApiMessage.role = ''assistant'', content_raw = ''how are you'',
     content_split = [''how are you''], mood = Some ''excited'', time = 1700000001,
     image_path = None, message_type = ''chat''\<rparr>"

definition unified_ok :: "string \<Rightarrow> ImageData list \<Rightarrow> thrown + ApiMessage list" where
  "unified_ok text images = Inr [hi_there, how_are_you]"

definition unified_down :: "string \<Rightarrow> ImageData list \<Rightarrow> thrown + ApiMessage list" where
  "unified_down text images = Inl (Thrown ''TypeError: Failed to fetch'')"

definition server_up :: World where
  "server_up = \<lparr>fetch = some_assets,
     api_startSummarization = Inr \<lparr>status = ''started'', SummarizeResponse.message = ''ok''\<rparr>,
     api_getSummarizationStatus = Inr \<lparr>status = ''idle'', SummarizeResponse.message = ''done''\<rparr>,
     api_shouldSendProactiveMessage = Inr True,
     api_sendProactiveMessage = Inr [hi_there, how_are_you],
     api_sendUnifiedMessage = unified_ok,
     api_triggerWebSearch = Inr [hi_there],
     api_triggerReminisce = Inl (Thrown ''Error: API Error 400: Not enough messages'')\<rparr>"

definition server_busy :: World where
  "server_busy = server_up\<lparr>
     api_getSummarizationStatus := Inr \<lparr>status = ''running'', SummarizeResponse.message = ''wait''\<rparr>\<rparr>"

definition server_down :: World where
  "server_down = \<lparr>fetch = no_assets,
     api_startSummarization = Inl (Thrown ''TypeError: Failed to fetch''),
     api_getSummarizationStatus = Inl (Thrown ''TypeError: Failed to fetch''),
     api_shouldSendProactiveMessage = Inl (Thrown ''TypeError: Failed to fetch''),
     api_sendProactiveMessage = Inl (Thrown ''TypeError: Failed to fetch''),
     api_sendUnifiedMessage = unified_down,
     api_triggerWebSearch = Inl (Thrown ''TypeError: Failed to fetch''),
     api_triggerReminisce = Inl (Thrown ''TypeError: Failed to fetch'')\<rparr>"

definition earlier :: Message where
  "earlier = \<lparr>Message.role = ''assistant'', content = ''welcome back'', mood = Some ''normal'',
     image_path = None\<rparr>"

definition photo :: ImageData where
  "photo = \<lparr>filename = ''1700000000000.png'', data = ''iVBORw0KGgo=''\<rparr>"

text \<open>The page at rest with one earlier message, the text \<^verbatim>\<open>" hello "\<close> typed and no attachment.\<close>

definition idle_page :: Page where
  "idle_page = \<lparr>Page.message = '' hello '', messages = [earlier], puriraWriting = False,
     currentMood = ''normal'', currentExtension = ''png'', menuOpen = False,
     summarizing = False, summarizeError = [], attachedImage = None, pollInterval = False,
     effects = []\<rparr>"

definition photo_page :: Page where
  "photo_page = idle_page\<lparr>attachedImage := Some photo\<rparr>"

text \<open>The page while an earlier exchange is still waiting for its reply.\<close>

definition writing_page :: Page where
  "writing_page = idle_page\<lparr>puriraWriting := True\<rparr>"

definition summarizing_page :: Page where
  "summarizing_page = idle_page\<lparr>summarizing := True, pollInterval := True\<rparr>"

section \<open>Properties of flattening\<close>

text \<open>
  C3: a server message that carries an image reference (one that the source's test
  \<^verbatim>\<open>msg.image_path && ...\<close> accepts, so present and not empty) and has at least two content
  segments is flattened to exactly one message, whose content is the segment at index 1
  and which carries the role, mood and image reference of the server message.  Any other
  server message is flattened to one message per content segment, in segment order, each
  with the role, mood and image reference of the server message.
\<close>

theorem flattenMessage_image_or_segments:
  "(truthy (ApiMessage.image_path msg) \<and> 2 \<le> length (content_split msg) \<longrightarrow>
      flattenMessage msg =
        [\<lparr>Message.role = ApiMessage.role msg, content = content_split msg ! 1,
          mood = ApiMessage.mood msg, image_path = ApiMessage.image_path msg\<rparr>]) \<and>
   (\<not> (truthy (ApiMessage.image_path msg) \<and> 2 \<le> length (content_split msg)) \<longrightarrow>
      length (flattenMessage msg) = length (content_split msg) \<and>
      (\<forall>i < length (content_split msg).
         flattenMessage msg ! i =
           \<lparr>Message.role = ApiMessage.role msg, content = content_split msg ! i,
            mood = ApiMessage.mood msg, image_path = ApiMessage.image_path msg\<rparr>))"
  by (simp add: flattenMessage_def)

theorem flattenMessage_image_or_segments_witness:
  "flattenMessage \<lparr>ApiMessage.role = ''user'', content_raw = ''a cat. look!'',
       content_split = [''a cat'', ''look!''], mood = Some ''happy'', time = 5,
       image_path = Some ''1.png'', message_type = ''image''\<rparr>
     = [\<lparr>Message.role = ''user'', content = ''look!'', mood = Some ''happy'',
         image_path = Some ''1.png''\<rparr>] \<and>
   flattenMessage \<lparr>ApiMessage.role = ''assistant'', content_raw = ''abc'',
       content_split = [''a'', ''b'', ''c''], mood = Some ''shy'', time = 6,
       image_path = None, message_type = ''chat''\<rparr> ! 2
     = \<lparr>Message.role = ''assistant'', content = ''c'', mood = Some ''shy'', image_path = None\<rparr>"
  using flattenMessage_image_or_segments [of "\<lparr>ApiMessage.role = ''user'', content_raw = ''a cat. look!'',
       content_split = [''a cat'', ''look!''], mood = Some ''happy'', time = 5,
       image_path = Some ''1.png'', message_type = ''image''\<rparr>"]
    flattenMessage_image_or_segments [of "\<lparr>ApiMessage.role = ''assistant'', content_raw = ''abc'',
       content_split = [''a'', ''b'', ''c''], mood = Some ''shy'', time = 6,
       image_path = None, message_type = ''chat''\<rparr>"]
  by (simp add: truthy_def)

text \<open>
  C10: a server message without content segments is flattened to no message at all, with
  or without an image reference, and so adds nothing to what a response is flattened to.
\<close>

theorem flattenMessage_no_segments:
  "content_split msg = [] \<Longrightarrow>
     flattenMessage msg = [] \<and>
     flattenMessages (pre @ msg # post) = flattenMessages pre @ flattenMessages post"
  by (simp add: flattenMessage_def flattenMessages_def)

theorem flattenMessage_no_segments_witness:
  "flattenMessage \<lparr>ApiMessage.role = ''user'', content_raw = [], content_split = [],
       mood = None, time = 7, image_path = Some ''2.png'', message_type = ''image''\<rparr> = [] \<and>
   flattenMessages [hi_there, \<lparr>ApiMessage.role = ''user'', content_raw = [], content_split = [],
       mood = None, time = 7, image_path = Some ''2.png'', message_type = ''image''\<rparr>, how_are_you] =
     flattenMessages [hi_there] @ flattenMessages [how_are_you]"
  using flattenMessage_no_segments [of "\<lparr>ApiMessage.role = ''user'', content_raw = [], content_split = [],
       mood = None, time = 7, image_path = Some ''2.png'', message_type = ''image''\<rparr>"
       "[hi_there]" "[how_are_you]"]
  by simp

section \<open>Properties of mood resolution\<close>











section \<open>Properties of the reveal\<close>

lemma emit_fields [simp]:
  "messages (emit e st) = messages st"
  "puriraWriting (emit e st) = puriraWriting st"
  "summarizing (emit e st) = summarizing st"
  "attachedImage (emit e st) = attachedImage st"
  "pollInterval (emit e st) = pollInterval st"
  "summarizeError (emit e st) = summarizeError st"
  "effects (emit e st) = effects st @ [e]"
  by (simp_all add: emit_def)

lemma updateMood_fields [simp]:
  "messages (updateMood w m st) = messages st"
  "puriraWriting (updateMood w m st) = puriraWriting st"
  "summarizing (updateMood w m st) = summarizing st"
  "attachedImage (updateMood w m st) = attachedImage st"
  "pollInterval (updateMood w m st) = pollInterval st"
  "summarizeError (updateMood w m st) = summarizeError st"
  by (simp_all add: updateMood_def split: prod.splits)

lemma updateMood_effects:
  "effects (updateMood w m st) =
     effects st @ map Head (fst (get_extension (fetch w) m)) @
       [MoodSet (snd (get_extension (fetch w) m))]"
  by (simp add: updateMood_def split: prod.splits)

lemma push_fields [simp]:
  "messages (push msg st) = messages st @ [msg]"
  "puriraWriting (push msg st) = puriraWriting st"
  "summarizing (push msg st) = summarizing st"
  "attachedImage (push msg st) = attachedImage st"
  "pollInterval (push msg st) = pollInterval st"
  "summarizeError (push msg st) = summarizeError st"
  "effects (push msg st) = effects st @ [Push msg]"
  by (simp_all add: push_def)

lemma tick_scroll_fields [simp]:
  "messages (tick_scroll st) = messages st"
  "puriraWriting (tick_scroll st) = puriraWriting st"
  "summarizing (tick_scroll st) = summarizing st"
  "attachedImage (tick_scroll st) = attachedImage st"
  "pollInterval (tick_scroll st) = pollInterval st"
  "summarizeError (tick_scroll st) = summarizeError st"
  "effects (tick_scroll st) = effects st @ [Tick]"
  by (simp_all add: tick_scroll_def)

lemma reveal_loop_fields:
  "messages (reveal_loop w all d rest st) = messages st @ map snd rest"
  "puriraWriting (reveal_loop w all d rest st) = puriraWriting st"
  "summarizing (reveal_loop w all d rest st) = summarizing st"
  "attachedImage (reveal_loop w all d rest st) = attachedImage st"
  "pollInterval (reveal_loop w all d rest st) = pollInterval st"
  "summarizeError (reveal_loop w all d rest st) = summarizeError st"
  by (induction rest arbitrary: st; simp add: Let_def split: option.splits)+

lemma indexOf_distinct:
  "fst x \<notin> fst ` set before \<Longrightarrow> indexOf (before @ x # rest) x = int (length before)"
  by (induction before) (auto simp: Let_def)

lemma mood_step_effects:
  "effects (case Message.mood msg of None \<Rightarrow> st
            | Some m \<Rightarrow> if m \<noteq> [] then updateMood w m st else st)
     = effects st @ mood_effects w msg"
  by (simp add: mood_effects_def updateMood_def split: option.splits prod.splits)

lemma reveal_loop_effects:
  "distinct (map fst (before @ rest)) \<Longrightarrow>
     effects (reveal_loop w (before @ rest) d rest st) = effects st @ reveal_spec w d (map snd rest)"
proof (induction rest arbitrary: before st)
  case Nil
  then show ?case by simp
next
  case (Cons msg rest)
  have ix: "indexOf (before @ msg # rest) msg = int (length before)"
    using Cons.prems by (intro indexOf_distinct) auto
  have d: "distinct (map fst ((before @ [msg]) @ rest))"
    using Cons.prems by simp
  have ih: "\<And>st'. effects (reveal_loop w (before @ msg # rest) d rest st')
      = effects st' @ reveal_spec w d (map snd rest)"
    using Cons.IH [OF d] by simp
  show ?case
  proof (cases rest)
    case Nil
    then show ?thesis
      using ix by (simp add: Let_def mood_step_effects)
  next
    case (Cons nxt rest')
    then show ?thesis
      using ih ix by (simp add: Let_def mood_step_effects)
  qed
qed

lemma reveal_spec_timeouts:
  "length (filter is_timeout (reveal_spec w d msgs)) = length msgs - 1"
proof (induction w d msgs rule: reveal_spec.induct)
  case (1 w delay)
  then show ?case by simp
next
  case (2 w delay msg)
  then show ?case
    by (simp add: mood_effects_def split: option.splits prod.splits)
next
  case (3 w delay msg nxt rest)
  then show ?case
    by (simp add: mood_effects_def split: option.splits prod.splits)
qed

lemma new_objects_distinct: "distinct (map fst (new_objects xs))"
  by (simp add: new_objects_def)

lemma new_objects_values: "map snd (new_objects xs) = xs"
  by (simp add: new_objects_def)

lemma length_new_objects: "length (new_objects xs) = length xs"
  by (simp add: new_objects_def)

lemma mood_effects_no_timeout: "filter is_timeout (mood_effects w msg) = []"
  by (simp add: mood_effects_def split: option.splits prod.splits)

lemma displayResponseMessages_fields:
  "messages (displayResponseMessages w rs d st) = messages st @ map snd rs"
  "puriraWriting (displayResponseMessages w rs d st) = puriraWriting st"
  "summarizing (displayResponseMessages w rs d st) = summarizing st"
  "attachedImage (displayResponseMessages w rs d st) = attachedImage st"
  "pollInterval (displayResponseMessages w rs d st) = pollInterval st"
  "summarizeError (displayResponseMessages w rs d st) = summarizeError st"
  by (simp_all add: displayResponseMessages_def reveal_loop_fields)

lemma displayResponseMessages_effects:
  "distinct (map fst rs) \<Longrightarrow>
   effects (displayResponseMessages w rs d st) =
     effects st @ reveal_spec w (case d of None \<Rightarrow> 1000 | Some t \<Rightarrow> t) (map snd rs)"
  using reveal_loop_effects [of "[]" rs] by (simp add: displayResponseMessages_def)

lemma emit_mood [simp]:
  "currentMood (emit e st) = currentMood st"
  "currentExtension (emit e st) = currentExtension st"
  by (simp_all add: emit_def)

lemma push_mood [simp]:
  "currentMood (push msg st) = currentMood st"
  "currentExtension (push msg st) = currentExtension st"
  by (simp_all add: push_def)

lemma tick_scroll_mood [simp]:
  "currentMood (tick_scroll st) = currentMood st"
  "currentExtension (tick_scroll st) = currentExtension st"
  by (simp_all add: tick_scroll_def)

lemma updateMood_mood:
  "currentMood (updateMood w m st) = ResolvedAvatar.mood (snd (get_extension (fetch w) m))"
  "currentExtension (updateMood w m st) = extension (snd (get_extension (fetch w) m))"
  by (simp_all add: updateMood_def split: prod.splits)

lemma reveal_loop_mood:
  "(currentMood (reveal_loop w all d rest st), currentExtension (reveal_loop w all d rest st)) =
     reveal_mood w (map snd rest) (currentMood st, currentExtension st)"
proof (induction rest arbitrary: st)
  case Nil
  then show ?case by simp
next
  case (Cons msg rest)
  show ?case
    by (simp add: Let_def Cons.IH updateMood_mood split: option.splits prod.splits)
qed

lemma reveal_loop_append:
  "reveal_loop w all d (before @ rest) st = reveal_loop w all d rest (reveal_loop w all d before st)"
  by (induction before arbitrary: st) (simp_all add: Let_def)

lemma get_extension_excited:
  "get_extension some_assets ''excited'' =
     ([''/avatar/excited.mp4'', ''/avatar/excited.png'', ''/avatar/excited.jpg'',
       ''/avatar/excited.jpeg'', ''/avatar/excited.gif''],
      \<lparr>ResolvedAvatar.mood = ''excited'', extension = ''gif''\<rparr>)"
  by (simp add: get_extension.simps head_ok_def some_assets_def avatar_url_def imageFormats_def)

lemma fetch_server_up: "fetch server_up = some_assets"
  by (simp add: server_up_def)

text \<open>
  C7: for a batch of pairwise different objects, as \<^verbatim>\<open>flattenMessages\<close> builds them, the
  reveal appends the messages to the timeline in the order of the batch, and its effects
  are those of \<^const>\<open>reveal_spec\<close>: per message the append, then for a message with a mood
  the avatar probes and the assignment of the presentation mood, then the tick, then a
  suspension of the delay (1000 when none is given) unless the message is the last.  A
  batch of n messages is therefore suspended n - 1 times.  The presentation mood of the
  page after the reveal is the one of \<^const>\<open>reveal_mood\<close>.  At every cut of the batch, the
  reveal is the loop over the second part run from the state that the loop over the
  first part leaves, and in that state, before any message of the second part is
  appended, the timeline holds the first part and the presentation mood is already the
  one resolved from the first part.
\<close>

theorem displayResponseMessages_paced:
  "distinct (map fst responseMessages) \<Longrightarrow>
   messages (displayResponseMessages w responseMessages delay st) =
     messages st @ map snd responseMessages \<and>
   effects (displayResponseMessages w responseMessages delay st) =
     effects st @ reveal_spec w (case delay of None \<Rightarrow> 1000 | Some d \<Rightarrow> d)
                    (map snd responseMessages) \<and>
   length (filter is_timeout (effects (displayResponseMessages w responseMessages delay st))) =
     length (filter is_timeout (effects st)) + (length responseMessages - 1) \<and>
   (currentMood (displayResponseMessages w responseMessages delay st),
    currentExtension (displayResponseMessages w responseMessages delay st)) =
     reveal_mood w (map snd responseMessages) (currentMood st, currentExtension st) \<and>
   (responseMessages = before @ rest \<longrightarrow>
      displayResponseMessages w responseMessages delay st =
        reveal_loop w responseMessages (case delay of None \<Rightarrow> 1000 | Some d \<Rightarrow> d) rest
          (reveal_loop w responseMessages (case delay of None \<Rightarrow> 1000 | Some d \<Rightarrow> d) before st) \<and>
      messages (reveal_loop w responseMessages (case delay of None \<Rightarrow> 1000 | Some d \<Rightarrow> d) before st) =
        messages st @ map snd before \<and>
      (currentMood (reveal_loop w responseMessages (case delay of None \<Rightarrow> 1000 | Some d \<Rightarrow> d) before st),
       currentExtension (reveal_loop w responseMessages (case delay of None \<Rightarrow> 1000 | Some d \<Rightarrow> d) before st)) =
        reveal_mood w (map snd before) (currentMood st, currentExtension st))"
proof -
  assume d: "distinct (map fst responseMessages)"
  let ?d = "case delay of None \<Rightarrow> 1000 | Some d \<Rightarrow> d"
  have timeline: "messages (displayResponseMessages w responseMessages delay st) =
      messages st @ map snd responseMessages"
    by (simp add: displayResponseMessages_fields)
  have log: "effects (displayResponseMessages w responseMessages delay st) =
      effects st @ reveal_spec w ?d (map snd responseMessages)"
    using d by (rule displayResponseMessages_effects)
  have pauses: "length (filter is_timeout
        (effects (displayResponseMessages w responseMessages delay st))) =
      length (filter is_timeout (effects st)) + (length responseMessages - 1)"
    by (simp add: log reveal_spec_timeouts)
  have final: "(currentMood (displayResponseMessages w responseMessages delay st),
      currentExtension (displayResponseMessages w responseMessages delay st)) =
     reveal_mood w (map snd responseMessages) (currentMood st, currentExtension st)"
    unfolding displayResponseMessages_def by (rule reveal_loop_mood)
  have split: "displayResponseMessages w responseMessages delay st =
        reveal_loop w responseMessages ?d rest (reveal_loop w responseMessages ?d before st)"
    if "responseMessages = before @ rest"
    unfolding displayResponseMessages_def
    using that reveal_loop_append [of w responseMessages ?d before rest st] by simp
  have mid_timeline: "messages (reveal_loop w responseMessages ?d before st) =
      messages st @ map snd before"
    by (rule reveal_loop_fields)
  have mid_mood: "(currentMood (reveal_loop w responseMessages ?d before st),
       currentExtension (reveal_loop w responseMessages ?d before st)) =
      reveal_mood w (map snd before) (currentMood st, currentExtension st)"
    by (rule reveal_loop_mood)
  show ?thesis
    using timeline log pauses final split mid_timeline mid_mood by blast
qed

lemma new_objects_two: "new_objects [a, b] = [(0, a), (1, b)]"
  by (simp add: new_objects_def upt_rec)

theorem displayResponseMessages_paced_witness:
  "messages (displayResponseMessages server_up
       (new_objects (flattenMessages [hi_there, how_are_you])) None idle_page) =
     [earlier,
      \<lparr>Message.role = ''assistant'', content = ''hi there'', mood = None, image_path = None\<rparr>,
      \<lparr>Message.role = ''assistant'', content = ''how are you'', mood = Some ''excited'',
       image_path = None\<rparr>] \<and>
   length (filter is_timeout (effects (displayResponseMessages server_up
       (new_objects (flattenMessages [hi_there, how_are_you])) None idle_page))) = 1 \<and>
   currentMood (displayResponseMessages server_up
       (new_objects (flattenMessages [hi_there, how_are_you])) None idle_page) = ''excited'' \<and>
   currentExtension (displayResponseMessages server_up
       (new_objects (flattenMessages [hi_there, how_are_you])) None idle_page) = ''gif'' \<and>
   messages (reveal_loop server_up (new_objects (flattenMessages [how_are_you, hi_there])) 1000
       [(0, \<lparr>Message.role = ''assistant'', content = ''how are you'', mood = Some ''excited'',
             image_path = None\<rparr>)] idle_page) =
     [earlier,
      \<lparr>Message.role = ''assistant'', content = ''how are you'', mood = Some ''excited'',
       image_path = None\<rparr>] \<and>
   currentMood (reveal_loop server_up (new_objects (flattenMessages [how_are_you, hi_there])) 1000
       [(0, \<lparr>Message.role = ''assistant'', content = ''how are you'', mood = Some ''excited'',
             image_path = None\<rparr>)] idle_page) = ''excited''"
proof -
  let ?hi = "\<lparr>Message.role = ''assistant'', content = ''hi there'', mood = None,
     image_path = None\<rparr>"
  let ?how = "\<lparr>Message.role = ''assistant'', content = ''how are you'', mood = Some ''excited'',
     image_path = None\<rparr>"
  let ?batch = "new_objects (flattenMessages [hi_there, how_are_you])"
  let ?after = "displayResponseMessages server_up ?batch None idle_page"
  have d: "distinct (map fst ?batch)"
    by (rule new_objects_distinct)
  have vals: "map snd ?batch = [?hi, ?how]"
    by (simp add: new_objects_values flattenMessages_def flattenMessage_def hi_there_def
        how_are_you_def truthy_def)
  have len: "length ?batch = 2"
    using arg_cong [OF vals, of length] by simp
  note paced = displayResponseMessages_paced [OF d, of server_up None idle_page ?batch "[]"]
  have timeline: "messages ?after = messages idle_page @ map snd ?batch"
    using paced by blast
  have pauses: "length (filter is_timeout (effects ?after)) =
      length (filter is_timeout (effects idle_page)) + (length ?batch - 1)"
    using paced by blast
  have shown: "(currentMood ?after, currentExtension ?after) =
      reveal_mood server_up (map snd ?batch) (currentMood idle_page, currentExtension idle_page)"
    using paced by blast
  have a: "messages ?after = [earlier, ?hi, ?how]"
    unfolding timeline vals by (simp add: idle_page_def)
  have b: "length (filter is_timeout (effects ?after)) = 1"
    unfolding pauses len by (simp add: idle_page_def)
  have c: "(currentMood ?after, currentExtension ?after) = (''excited'', ''gif'')"
    unfolding shown vals by (simp add: fetch_server_up get_extension_excited)
  let ?swapped = "new_objects (flattenMessages [how_are_you, hi_there])"
  let ?mid = "reveal_loop server_up ?swapped 1000 [(0, ?how)] idle_page"
  have parts: "?swapped = [(0, ?how)] @ [(1, ?hi)]"
    by (simp add: flattenMessages_def flattenMessage_def hi_there_def how_are_you_def
        truthy_def new_objects_two)
  have d': "distinct (map fst ?swapped)"
    by (rule new_objects_distinct)
  note halfway = displayResponseMessages_paced [OF d', of server_up None idle_page
      "[(0, ?how)]" "[(1, ?hi)]"]
  have e: "messages ?mid = messages idle_page @ map snd [(0::nat, ?how)]"
    using halfway parts by simp
  have f: "(currentMood ?mid, currentExtension ?mid) =
      reveal_mood server_up (map snd [(0::nat, ?how)])
        (currentMood idle_page, currentExtension idle_page)"
    using halfway parts by simp
  have g: "messages ?mid = [earlier, ?how]"
    unfolding e by (simp add: idle_page_def)
  have h: "(currentMood ?mid, currentExtension ?mid) = (''excited'', ''gif'')"
    unfolding f by (simp add: fetch_server_up get_extension_excited)
  show ?thesis
    using a b c g h by simp
qed

text \<open>
  The batch has to consist of different objects: \<^verbatim>\<open>indexOf\<close> finds the first occurrence of
  an object, so an array that held one object twice would be suspended after its last
  element as well.
\<close>

lemma reveal_same_object_twice:
  "length (filter is_timeout (effects (displayResponseMessages w [(0, msg), (0, msg)] None st))) =
     length (filter is_timeout (effects st)) + 2"
  by (simp add: displayResponseMessages_def Let_def mood_step_effects mood_effects_def
      split: option.splits prod.splits)

section \<open>Properties of sending\<close>

lemma trim_hello: "trim '' hello '' = ''hello''"
  by (simp add: trim_def is_space_def)

lemma send_accepted:
  assumes "trim (Page.message st) \<noteq> []" "\<not> puriraWriting st" "\<not> summarizing st"
  shows "send w st =
     (let text = trim (Page.message st);
          images = (case attachedImage st of None \<Rightarrow> [] | Some imageData \<Rightarrow> [imageData]);
          st3 = emit (Api (SendUnifiedMessage text images))
                  (tick_scroll
                    ((push \<lparr>Message.role = ''user'', content = text, mood = None,
                            image_path = map_option filename (attachedImage st)\<rparr> st)
                       \<lparr>Page.message := [], attachedImage := None, puriraWriting := True\<rparr>))
      in (case api_sendUnifiedMessage w text images of
            Inr apiMessages \<Rightarrow>
              displayResponseMessages w (new_objects (flattenMessages apiMessages)) None st3
          | Inl err \<Rightarrow>
              send_catch (length (messages st)) (attachedImage st \<noteq> None) (attachedImage st) err st3)
         \<lparr>puriraWriting := False\<rparr>)"
  using assms
  by (cases "attachedImage st") (simp_all add: send_def Let_def split: sum.splits)

lemma send_catch_fields:
  "messages (send_catch n had att err st) = take n (messages st)"
  "attachedImage (send_catch n had att err st) = (if had then att else attachedImage st)"
  "puriraWriting (send_catch n had att err st) = puriraWriting st"
  "summarizing (send_catch n had att err st) = summarizing st"
  by (simp_all add: send_catch_def Let_def alert_def)

lemma send_flag: "puriraWriting (send w st) = puriraWriting st"
  by (simp add: send_def Let_def)

lemma sendProactiveMessage_flag:
  "puriraWriting (sendProactiveMessage w st) = puriraWriting st"
  by (simp add: sendProactiveMessage_def Let_def toggleMenu_def alert_def)

lemma sendProactiveMessageAuto_flag:
  "puriraWriting (sendProactiveMessageAuto w st) = puriraWriting st"
  by (simp add: sendProactiveMessageAuto_def Let_def)

lemma sendProactiveMessageAuto_effects_grow:
  "\<exists>more. effects (sendProactiveMessageAuto w st) = effects st @ more"
proof (cases "api_sendProactiveMessage w")
  case (Inl err)
  then show ?thesis by (simp add: sendProactiveMessageAuto_def Let_def)
next
  case (Inr apiMessages)
  then show ?thesis
    by (simp add: sendProactiveMessageAuto_def Let_def
        displayResponseMessages_effects [OF new_objects_distinct])
qed

text \<open>
  C1: when the typed text is not empty after trimming, neither \<^verbatim>\<open>puriraWriting\<close> nor
  \<^verbatim>\<open>summarizing\<close> is set and the unified-message call returns, \<^const>\<open>send\<close> extends the
  timeline by the user's message (content the trimmed text, image path the file name of
  the attachment if there was one) followed by the flattened response in its order:
  1 + the length of the flattened response messages in all.
\<close>

theorem send_success_appends:
  assumes "trim (Page.message st) \<noteq> []" and "\<not> puriraWriting st" and "\<not> summarizing st"
    and "api_sendUnifiedMessage w (trim (Page.message st))
           (case attachedImage st of None \<Rightarrow> [] | Some imageData \<Rightarrow> [imageData]) = Inr apiMessages"
  shows "messages (send w st) =
           messages st @
           \<lparr>Message.role = ''user'', content = trim (Page.message st), mood = None,
            image_path = map_option filename (attachedImage st)\<rparr> # flattenMessages apiMessages \<and>
         length (messages (send w st)) =
           length (messages st) + (1 + length (flattenMessages apiMessages))"
  using assms(4)
  by (simp add: send_accepted [OF assms(1-3)] Let_def displayResponseMessages_fields
      new_objects_values)

theorem send_success_appends_witness:
  "messages (send server_up idle_page) =
     [earlier,
      \<lparr>Message.role = ''user'', content = ''hello'', mood = None, image_path = None\<rparr>,
      \<lparr>Message.role = ''assistant'', content = ''hi there'', mood = None, image_path = None\<rparr>,
      \<lparr>Message.role = ''assistant'', content = ''how are you'', mood = Some ''excited'',
       image_path = None\<rparr>] \<and>
   messages (send server_up photo_page) =
     [earlier,
      \<lparr>Message.role = ''user'', content = ''hello'', mood = None,
       image_path = Some ''1700000000000.png''\<rparr>,
      \<lparr>Message.role = ''assistant'', content = ''hi there'', mood = None, image_path = None\<rparr>,
      \<lparr>Message.role = ''assistant'', content = ''how are you'', mood = Some ''excited'',
       image_path = None\<rparr>]"
  using send_success_appends [of idle_page server_up "[hi_there, how_are_you]"]
    send_success_appends [of photo_page server_up "[hi_there, how_are_you]"]
  by (simp add: trim_hello idle_page_def photo_page_def server_up_def unified_ok_def photo_def
      flattenMessages_def flattenMessage_def hi_there_def how_are_you_def truthy_def)

text \<open>
  C2: when the unified-message call of an accepted \<^const>\<open>send\<close> throws, the timeline after
  the call is the timeline before it, and so is the attachment.  The handler itself,
  entered from any later state of the \<^verbatim>\<open>try\<close> block whose timeline is at least as long as
  before the send, cuts the timeline to the length before the send and puts back the
  attachment that was there.
\<close>

theorem send_failure_rolls_back:
  assumes "trim (Page.message st) \<noteq> []" and "\<not> puriraWriting st" and "\<not> summarizing st"
    and "api_sendUnifiedMessage w (trim (Page.message st))
           (case attachedImage st of None \<Rightarrow> [] | Some imageData \<Rightarrow> [imageData]) = Inl err"
  shows "messages (send w st) = messages st \<and>
         length (messages (send w st)) = length (messages st) \<and>
         attachedImage (send w st) = attachedImage st \<and>
         (length (messages st) \<le> length (messages mid) \<longrightarrow>
            length (messages (send_catch (length (messages st)) (attachedImage st \<noteq> None)
                      (attachedImage st) err' mid)) = length (messages st)) \<and>
         (attachedImage st \<noteq> None \<longrightarrow>
            attachedImage (send_catch (length (messages st)) (attachedImage st \<noteq> None)
                      (attachedImage st) err' mid) = attachedImage st)"
  using assms(4)
  by (simp add: send_accepted [OF assms(1-3)] Let_def send_catch_fields)

theorem send_failure_rolls_back_witness:
  "messages (send server_down photo_page) = [earlier] \<and>
   attachedImage (send server_down photo_page) = Some photo \<and>
   length (messages (send_catch 1 True (Some photo) (Thrown ''TypeError: tick failed'')
      (photo_page\<lparr>messages := [earlier, earlier, earlier], attachedImage := None\<rparr>))) = 1 \<and>
   attachedImage (send_catch 1 True (Some photo) (Thrown ''TypeError: tick failed'')
      (photo_page\<lparr>messages := [earlier, earlier, earlier], attachedImage := None\<rparr>)) = Some photo"
  using send_failure_rolls_back [of photo_page server_down "Thrown ''TypeError: Failed to fetch''"
      "photo_page\<lparr>messages := [earlier, earlier, earlier], attachedImage := None\<rparr>"
      "Thrown ''TypeError: tick failed''"]
  by (simp add: trim_hello idle_page_def photo_page_def server_down_def unified_down_def)

text \<open>
  C5, as amended: a call of \<^const>\<open>send\<close>, \<^const>\<open>sendProactiveMessage\<close> or
  \<^const>\<open>sendProactiveMessageAuto\<close> that starts with \<^verbatim>\<open>puriraWriting\<close> unset ends with it
  unset, whatever the collaborators answer.  A call that starts while \<^verbatim>\<open>puriraWriting\<close> is
  set is turned away by the guard at the entry and leaves the flag set and the timeline
  as it was.
\<close>

theorem sending_flag_after_call:
  "(\<not> puriraWriting st \<longrightarrow>
      \<not> puriraWriting (send w st) \<and>
      \<not> puriraWriting (sendProactiveMessage w st) \<and>
      \<not> puriraWriting (sendProactiveMessageAuto w st)) \<and>
   (puriraWriting st \<longrightarrow>
      send w st = st \<and> sendProactiveMessageAuto w st = st \<and>
      puriraWriting (sendProactiveMessage w st) \<and>
      messages (sendProactiveMessage w st) = messages st)"
  by (simp add: send_flag sendProactiveMessage_flag sendProactiveMessageAuto_flag)
    (simp add: send_def sendProactiveMessageAuto_def sendProactiveMessage_def Let_def
      toggleMenu_def alert_def)

theorem sending_flag_after_call_witness:
  "\<not> puriraWriting (send server_up idle_page) \<and>
   \<not> puriraWriting (send server_down idle_page) \<and>
   \<not> puriraWriting (sendProactiveMessage server_down idle_page) \<and>
   \<not> puriraWriting (sendProactiveMessageAuto server_down idle_page) \<and>
   send server_up writing_page = writing_page"
  using sending_flag_after_call [of idle_page server_up]
    sending_flag_after_call [of idle_page server_down]
    sending_flag_after_call [of writing_page server_up]
  by (simp add: idle_page_def writing_page_def)

text \<open>
  C5 as first stated, that the flag is unset after every call, fails for a call made while
  another exchange is under way.
\<close>

theorem sending_flag_counterexample:
  "puriraWriting (sendProactiveMessageAuto server_up writing_page)"
  by (simp add: sendProactiveMessageAuto_def writing_page_def idle_page_def)

section \<open>Properties of the periodic tasks and background actions\<close>

text \<open>
  C6: a run of the proactive check that finds \<^verbatim>\<open>puriraWriting\<close> or \<^verbatim>\<open>summarizing\<close> set
  changes nothing and issues no request; a run that issues a request found both unset,
  and such a run starts with the should-send query.
\<close>

theorem proactiveCheck_silent_when_busy:
  "(puriraWriting st \<or> summarizing st \<longrightarrow>
      proactiveCheck w st = st \<and>
      filter is_request (effects (proactiveCheck w st)) = filter is_request (effects st)) \<and>
   (filter is_request (effects (proactiveCheck w st)) \<noteq> filter is_request (effects st) \<longrightarrow>
      \<not> puriraWriting st \<and> \<not> summarizing st) \<and>
   (\<not> puriraWriting st \<and> \<not> summarizing st \<longrightarrow>
      (\<exists>more. effects (proactiveCheck w st) =
         effects st @ Api ShouldSendProactiveMessage # more))"
proof -
  have busy: "puriraWriting st \<or> summarizing st \<Longrightarrow> proactiveCheck w st = st"
    by (simp add: proactiveCheck_def)
  have idle: "\<exists>more. effects (proactiveCheck w st) =
      effects st @ Api ShouldSendProactiveMessage # more"
    if "\<not> puriraWriting st" "\<not> summarizing st"
  proof -
    obtain more where
      "effects (sendProactiveMessageAuto w (emit (Api ShouldSendProactiveMessage) st)) =
         effects (emit (Api ShouldSendProactiveMessage) st) @ more"
      using sendProactiveMessageAuto_effects_grow by blast
    then show ?thesis
      using that by (simp add: proactiveCheck_def Let_def split: sum.splits)
  qed
  show ?thesis using busy idle by auto
qed

theorem proactiveCheck_silent_when_busy_witness:
  "proactiveCheck server_up writing_page = writing_page \<and>
   proactiveCheck server_up summarizing_page = summarizing_page \<and>
   effects (proactiveCheck server_down idle_page) = [Api ShouldSendProactiveMessage] \<and>
   \<not> puriraWriting idle_page \<and> \<not> summarizing idle_page"
  using proactiveCheck_silent_when_busy [of writing_page server_up]
    proactiveCheck_silent_when_busy [of summarizing_page server_up]
    proactiveCheck_silent_when_busy [of idle_page server_down]
  by (simp add: writing_page_def summarizing_page_def idle_page_def proactiveCheck_def
      server_down_def emit_def)

text \<open>
  C8: a status poll that is answered with the status \<^verbatim>\<open>idle\<close> removes the interval and
  clears \<^verbatim>\<open>summarizing\<close>, leaving the error text alone and raising no alert; a poll whose
  query throws removes the interval, clears \<^verbatim>\<open>summarizing\<close> and sets the error text that
  the page displays; a poll answered with any other status leaves the interval, the flag
  and the error text as they were.
\<close>

theorem pollStatus_outcomes:
  "(api_getSummarizationStatus w = Inr response \<and> status response = ''idle'' \<longrightarrow>
      \<not> pollInterval (pollStatus w st) \<and> \<not> summarizing (pollStatus w st) \<and>
      summarizeError (pollStatus w st) = summarizeError st \<and>
      filter is_alert (effects (pollStatus w st)) = filter is_alert (effects st)) \<and>
   (api_getSummarizationStatus w = Inl err \<longrightarrow>
      \<not> pollInterval (pollStatus w st) \<and> \<not> summarizing (pollStatus w st) \<and>
      summarizeError (pollStatus w st) = ''Failed to check status: '' @ error_text err \<and>
      summarizeError (pollStatus w st) \<noteq> []) \<and>
   (api_getSummarizationStatus w = Inr response \<and> status response \<noteq> ''idle'' \<longrightarrow>
      pollInterval (pollStatus w st) = pollInterval st \<and>
      summarizing (pollStatus w st) = summarizing st \<and>
      summarizeError (pollStatus w st) = summarizeError st \<and>
      filter is_alert (effects (pollStatus w st)) = filter is_alert (effects st))"
  by (simp add: pollStatus_def Let_def)

theorem pollStatus_outcomes_witness:
  "\<not> pollInterval (pollStatus server_up summarizing_page) \<and>
   \<not> summarizing (pollStatus server_up summarizing_page) \<and>
   summarizeError (pollStatus server_up summarizing_page) = [] \<and>
   \<not> pollInterval (pollStatus server_down summarizing_page) \<and>
   \<not> summarizing (pollStatus server_down summarizing_page) \<and>
   summarizeError (pollStatus server_down summarizing_page) =
     ''Failed to check status: TypeError: Failed to fetch'' \<and>
   pollInterval (pollStatus server_busy summarizing_page) \<and>
   summarizing (pollStatus server_busy summarizing_page)"
  using pollStatus_outcomes [of server_up "\<lparr>status = ''idle'', SummarizeResponse.message = ''done''\<rparr>"
      summarizing_page "Thrown []"]
    pollStatus_outcomes [of server_down "\<lparr>status = ''idle'', SummarizeResponse.message = ''done''\<rparr>"
      summarizing_page "Thrown ''TypeError: Failed to fetch''"]
    pollStatus_outcomes [of server_busy "\<lparr>status = ''running'', SummarizeResponse.message = ''wait''\<rparr>"
      summarizing_page "Thrown []"]
  by (simp add: server_up_def server_down_def server_busy_def summarizing_page_def idle_page_def)

text \<open>
  C9: the web-search and the reminisce action leave the timeline as it was, whatever the
  remote call does: they neither append nor cut back.
\<close>

theorem background_actions_keep_timeline:
  "messages (triggerWebSearch w st) = messages st \<and>
   messages (triggerReminisce w st) = messages st \<and>
   filter is_timeline (effects (triggerWebSearch w st)) = filter is_timeline (effects st) \<and>
   filter is_timeline (effects (triggerReminisce w st)) = filter is_timeline (effects st)"
  by (simp add: triggerWebSearch_def triggerReminisce_def Let_def toggleMenu_def alert_def
      split: sum.splits)

text \<open>The refusal for lack of history only raises its own alert.\<close>

lemma triggerReminisce_not_enough:
  "effects (triggerReminisce server_up idle_page) =
     [Api TriggerReminisce, Alert ''Not enough messages to reminisce about (need at least 10)'']"
  by (simp add: triggerReminisce_def Let_def toggleMenu_def alert_def emit_def server_up_def
      idle_page_def)

end
